theory Spec2Isabelle
  imports Complex_Main
begin

section \<open>A/B testing notebook: sample size, sampling, significance and power\<close>

text \<open>
  The notebook \<^verbatim>\<open>ab_testing.ipynb\<close> defines \<^verbatim>\<open>get_sample_estimate\<close> and
  \<^verbatim>\<open>draw_samples\<close> and evaluates two cells on the globals \<^verbatim>\<open>test_group\<close> and
  \<^verbatim>\<open>control_group\<close>: a chi-square test and a power figure.

  Conventions of the embedding.
  \<^item> A Python \<^verbatim>\<open>float\<close> is read as a real number: rounding and overflow are left out,
    every exception the arithmetic can raise is kept.
  \<^item> A \<^verbatim>\<open>numpy.float64\<close> scalar (what the scipy distribution functions return) never
    raises in arithmetic: division by zero and operations on \<^verbatim>\<open>inf\<close>/\<^verbatim>\<open>nan\<close> give
    \<^verbatim>\<open>inf\<close> or \<^verbatim>\<open>nan\<close> with a warning. Such a scalar is a finite real or the single
    value \<open>NonFinite\<close>.
  \<^item> The distribution functions of scipy (\<^verbatim>\<open>st.norm.ppf\<close>, \<^verbatim>\<open>st.chi2.cdf\<close>, the
    chi-square survival function behind \<^verbatim>\<open>st.chisquare\<close>) and the generator behind
    \<^verbatim>\<open>random.uniform\<close> are not part of the repository: they are parameters.
\<close>

subsection \<open>Errors and numeric values\<close>

datatype error =
    Exception string
  | TypeError
  | ValueError
  | ZeroDivisionError

datatype npfloat = Num real | NonFinite

fun np_add :: "npfloat \<Rightarrow> npfloat \<Rightarrow> npfloat" where
  "np_add (Num x) (Num y) = Num (x + y)"
| "np_add _ _ = NonFinite"

fun np_mul :: "npfloat \<Rightarrow> npfloat \<Rightarrow> npfloat" where
  "np_mul (Num x) (Num y) = Num (x * y)"
| "np_mul _ _ = NonFinite"

text \<open>A \<^verbatim>\<open>numpy.float64\<close> divided by a finite Python number: no exception, a zero divisor
  gives \<^verbatim>\<open>inf\<close> or \<^verbatim>\<open>nan\<close>.\<close>

fun np_truediv :: "npfloat \<Rightarrow> real \<Rightarrow> npfloat" where
  "np_truediv (Num x) d = (if d = 0 then NonFinite else Num (x / d))"
| "np_truediv NonFinite d = NonFinite"

fun np_pow2 :: "npfloat \<Rightarrow> npfloat" where
  "np_pow2 (Num x) = Num (x ^ 2)"
| "np_pow2 NonFinite = NonFinite"

text \<open>\<^verbatim>\<open>math.sqrt\<close> raises \<^verbatim>\<open>ValueError: math domain error\<close> on a negative argument.\<close>

definition math_sqrt :: "real \<Rightarrow> error + real" where
  "math_sqrt x = (if x < 0 then Inl ValueError else Inr (sqrt x))"

text \<open>\<^verbatim>\<open>mde/sigma1\<close> on Python numbers: \<^verbatim>\<open>TypeError\<close> when \<^verbatim>\<open>sigma1\<close> is \<^verbatim>\<open>None\<close>,
  \<^verbatim>\<open>ZeroDivisionError\<close> when it is zero.\<close>

definition py_truediv :: "real \<Rightarrow> real option \<Rightarrow> error + real" where
  "py_truediv a b =
     (case b of
        None \<Rightarrow> Inl TypeError
      | Some d \<Rightarrow> if d = 0 then Inl ZeroDivisionError else Inr (a / d))"

subsection \<open>Sample size estimation\<close>

text \<open>
  \<^verbatim>\<open>
  if tail == 1:
      z_alpha = st.norm.ppf(1 - sig)
  elif tail == 2:
      z_alpha = st.norm.ppf(1 - sig/2)
  else:
      raise Exception("tail can only be 1 or 2")
  \<close>
\<close>

definition z_alpha :: "(real \<Rightarrow> npfloat) \<Rightarrow> real \<Rightarrow> int \<Rightarrow> error + npfloat" where
  "z_alpha ppf sig tail =
     (if tail = 1 then Inr (ppf (1 - sig))
      else if tail = 2 then Inr (ppf (1 - sig / 2))
      else Inl (Exception ''tail can only be 1 or 2''))"

text \<open>
  \<^verbatim>\<open>
  z_beta = st.norm.ppf(power)
  p2 = p1 + mde
  if var_type == 'binomial':
      n = ((z_alpha*math.sqrt(p1*(1-p1)) + z_beta*math.sqrt(p2*(1-p2))) / mde)**2
  elif var_type == 'continuous':
      n = ((z_alpha + z_beta) / (mde/sigma1))**2
  else:
      raise Exception("var_type can only be binomial or continuous")
  return n
  \<close>
  The parameter \<open>pwr\<close> is the source's \<^verbatim>\<open>power\<close>.
\<close>

definition get_sample_estimate ::
  "(real \<Rightarrow> npfloat) \<Rightarrow> real \<Rightarrow> real \<Rightarrow> real \<Rightarrow> real \<Rightarrow> real option \<Rightarrow> string \<Rightarrow> int
     \<Rightarrow> error + npfloat" where
  "get_sample_estimate ppf sig pwr mde p1 sigma1 var_type tail =
     (case z_alpha ppf sig tail of
        Inl e \<Rightarrow> Inl e
      | Inr za \<Rightarrow>
          (let z_beta = ppf pwr;
               p2 = p1 + mde
           in if var_type = ''binomial'' then
                (case math_sqrt (p1 * (1 - p1)) of
                   Inl e \<Rightarrow> Inl e
                 | Inr s1 \<Rightarrow>
                     (case math_sqrt (p2 * (1 - p2)) of
                        Inl e \<Rightarrow> Inl e
                      | Inr s2 \<Rightarrow>
                          Inr (np_pow2 (np_truediv
                                 (np_add (np_mul za (Num s1)) (np_mul z_beta (Num s2))) mde))))
              else if var_type = ''continuous'' then
                (case py_truediv mde sigma1 of
                   Inl e \<Rightarrow> Inl e
                 | Inr d \<Rightarrow> Inr (np_pow2 (np_truediv (np_add za z_beta) d)))
              else Inl (Exception ''var_type can only be binomial or continuous'')))"

text \<open>The spec has two error classes, InvalidArgument and DivisionByZero. The source
  raises four kinds of exception: \<^verbatim>\<open>Exception\<close> (the two \<^verbatim>\<open>raise\<close> statements),
  \<^verbatim>\<open>TypeError\<close> (dividing by a missing \<^verbatim>\<open>sigma1\<close>), \<^verbatim>\<open>ValueError\<close> (\<^verbatim>\<open>math.sqrt\<close> on a
  negative number, that is a probability outside \<open>[0, 1]\<close>) and \<^verbatim>\<open>ZeroDivisionError\<close>.
  The last is DivisionByZero; the other three report an argument that is not acceptable.\<close>

definition invalid_argument :: "error \<Rightarrow> bool" where
  "invalid_argument e =
     (case e of Exception _ \<Rightarrow> True | TypeError \<Rightarrow> True | ValueError \<Rightarrow> True
      | ZeroDivisionError \<Rightarrow> False)"

subsection \<open>Drawing samples\<close>

text \<open>
  The generator is a state \<open>'g\<close> with a step function: \<open>random g\<close> is the value of
  \<^verbatim>\<open>random.random()\<close> and the generator's next state. \<^verbatim>\<open>random.uniform(a, b)\<close> is
  \<^verbatim>\<open>a + (b-a) * self.random()\<close>.
\<close>

definition uniform :: "('g \<Rightarrow> real \<times> 'g) \<Rightarrow> real \<Rightarrow> real \<Rightarrow> 'g \<Rightarrow> real \<times> 'g" where
  "uniform random a b g = (case random g of (r, g') \<Rightarrow> (a + (b - a) * r, g'))"

text \<open>
  \<^verbatim>\<open>
  def draw_sample(p):
      return 1 if random.uniform(0, 1.0) <= p else 0
  \<close>
\<close>

definition draw_sample :: "('g \<Rightarrow> real \<times> 'g) \<Rightarrow> real \<Rightarrow> 'g \<Rightarrow> int \<times> 'g" where
  "draw_sample random p g =
     (case uniform random 0 1 g of (u, g') \<Rightarrow> (if u \<le> p then 1 else 0, g'))"

text \<open>
  \<^verbatim>\<open>
  o = []
  for i in range(0, n):
      o.append(draw_sample(p))
  return o
  \<close>
  The loop runs \<open>nat n\<close> times (\<^verbatim>\<open>range(0, n)\<close> is empty for \<open>n \<le> 0\<close>); \<open>out\<close> is the
  source's list \<^verbatim>\<open>o\<close>.
\<close>

fun draw_loop :: "('g \<Rightarrow> real \<times> 'g) \<Rightarrow> real \<Rightarrow> nat \<Rightarrow> int list \<Rightarrow> 'g \<Rightarrow> int list \<times> 'g" where
  "draw_loop random p 0 out g = (out, g)"
| "draw_loop random p (Suc k) out g =
     (case draw_sample random p g of (v, g') \<Rightarrow> draw_loop random p k (out @ [v]) g')"

definition draw_samples :: "('g \<Rightarrow> real \<times> 'g) \<Rightarrow> real \<Rightarrow> int \<Rightarrow> 'g \<Rightarrow> int list \<times> 'g" where
  "draw_samples random p n g = draw_loop random p (nat n) [] g"

text \<open>The first \<open>k\<close> values the generator produces from state \<open>g\<close>, in order.\<close>

fun draws :: "('g \<Rightarrow> real \<times> 'g) \<Rightarrow> nat \<Rightarrow> 'g \<Rightarrow> real list" where
  "draws random 0 g = []"
| "draws random (Suc k) g = (case random g of (r, g') \<Rightarrow> r # draws random k g')"

subsection \<open>Significance test\<close>

text \<open>
  An outcome sequence is a list of integers. \<open>count_of i grp\<close> is
  \<^verbatim>\<open>len(list(filter(lambda v: v == i, grp)))\<close>, for \<open>grp\<close> either group.
  \<^verbatim>\<open>
  f_obs = [len(list(filter(lambda v: v == 0, test_group))), len(list(filter(lambda v: v == 1, test_group)))]
  f_exp = [len(list(filter(lambda v: v == 0, control_group))), len(list(filter(lambda v: v == 1, control_group)))]
  st.chisquare(f_obs, f_exp)
  \<close>
\<close>

definition count_of :: "int \<Rightarrow> int list \<Rightarrow> int" where
  "count_of i grp = int (length (filter (\<lambda>v. v = i) grp))"

definition f_obs :: "int list \<Rightarrow> int list" where
  "f_obs test_group = [count_of 0 test_group, count_of 1 test_group]"

definition f_exp :: "int list \<Rightarrow> int list" where
  "f_exp control_group = [count_of 0 control_group, count_of 1 control_group]"

text \<open>
  \<^verbatim>\<open>scipy.stats.chisquare\<close> is a library routine. On two sequences of equal length it turns
  them into numpy arrays, computes \<^verbatim>\<open>terms = (f_obs - f_exp)**2 / f_exp\<close> elementwise,
  \<^verbatim>\<open>stat = terms.sum()\<close> and \<^verbatim>\<open>p = chi2.sf(stat, num_obs - 1)\<close>, and returns the pair.
  The division is numpy's: a zero in \<^verbatim>\<open>f_exp\<close> gives \<^verbatim>\<open>inf\<close> or \<^verbatim>\<open>nan\<close> and a
  warning, not an exception. The survival function \<open>chi2_sf\<close> is a parameter; its value at
  \<open>NonFinite\<close> stands for the library's answer on \<^verbatim>\<open>inf\<close> or \<^verbatim>\<open>nan\<close>. (The
  notebook records Python 3.6.8; the scipy releases for it do not compare the two sums.)
\<close>

definition chisquare :: "(npfloat \<Rightarrow> int \<Rightarrow> npfloat) \<Rightarrow> int list \<Rightarrow> int list \<Rightarrow> npfloat \<times> npfloat" where
  "chisquare chi2_sf fo fe =
     (let terms = map2 (\<lambda>a b. np_truediv (Num (real_of_int ((a - b) ^ 2))) (real_of_int b)) fo fe;
          stat = foldl np_add (Num 0) terms
      in (stat, chi2_sf stat (int (length terms) - 1)))"

definition significance_test ::
  "(npfloat \<Rightarrow> int \<Rightarrow> npfloat) \<Rightarrow> int list \<Rightarrow> int list \<Rightarrow> npfloat \<times> npfloat" where
  "significance_test chi2_sf test_group control_group =
     chisquare chi2_sf (f_obs test_group) (f_exp control_group)"

subsection \<open>Power\<close>

text \<open>
  \<^verbatim>\<open>
  r_int = []
  for i in (0, 1):
      o = len(list(filter(lambda v: v == i, test_group)))
      e = len(list(filter(lambda v: v == i, control_group)))
      r_int.append((o - e)**2 / e)
  print("Power: ", st.chi2.cdf(sum(r_int) * 5000, 1))
  \<close>
  \<open>oi\<close> is the source's \<^verbatim>\<open>o\<close>. The division is Python's on two integers: it raises
  \<^verbatim>\<open>ZeroDivisionError\<close> when \<^verbatim>\<open>e\<close> is zero.
\<close>

fun r_int_loop :: "int list \<Rightarrow> int list \<Rightarrow> int list \<Rightarrow> real list \<Rightarrow> error + real list" where
  "r_int_loop [] test_group control_group r_int = Inr r_int"
| "r_int_loop (i # rest) test_group control_group r_int =
     (let oi = count_of i test_group;
          e = count_of i control_group
      in if e = 0 then Inl ZeroDivisionError
         else r_int_loop rest test_group control_group
                (r_int @ [real_of_int ((oi - e) ^ 2) / real_of_int e]))"

text \<open>The argument handed to \<^verbatim>\<open>st.chi2.cdf\<close>: \<^verbatim>\<open>sum(r_int) * 5000\<close>.\<close>

definition noncentrality :: "int list \<Rightarrow> int list \<Rightarrow> error + real" where
  "noncentrality test_group control_group =
     (case r_int_loop [0, 1] test_group control_group [] of
        Inl e \<Rightarrow> Inl e
      | Inr r_int \<Rightarrow> Inr (sum_list r_int * 5000))"

definition power_estimate ::
  "(real \<Rightarrow> int \<Rightarrow> npfloat) \<Rightarrow> int list \<Rightarrow> int list \<Rightarrow> error + npfloat" where
  "power_estimate chi2_cdf test_group control_group =
     (case noncentrality test_group control_group of
        Inl e \<Rightarrow> Inl e
      | Inr x \<Rightarrow> Inr (chi2_cdf x 1))"

subsection \<open>The statistic in the spec's words\<close>

text \<open>The sum over the two categories \<open>i = 0, 1\<close> of \<open>(O\<^sub>i - E\<^sub>i)\<^sup>2 / E\<^sub>i\<close>, where \<open>O\<^sub>i\<close>
  and \<open>E\<^sub>i\<close> are the numbers of occurrences of the value \<open>i\<close> in the observed and in the
  expected group. The counts are the library's \<open>count_list\<close>, not the model's \<open>count_of\<close>.\<close>

definition spec_statistic :: "int list \<Rightarrow> int list \<Rightarrow> real" where
  "spec_statistic observed expected =
     (\<Sum>i\<leftarrow>[0, 1]. (real (count_list observed i) - real (count_list expected i)) ^ 2
                  / real (count_list expected i))"

subsection \<open>Stand-ins for the library's functions in examples\<close>

text \<open>The examples below evaluate the model at concrete inputs and need concrete functions
  in place of the parameters. These three are used there and nowhere else: a quantile
  function that is 0 at the median, a survival function that is 1 at 0, and a distribution
  function that is 0 at 0.\<close>

definition ppf_example :: "real \<Rightarrow> npfloat" where
  "ppf_example q = Num (2 * q - 1)"

definition sf_example :: "npfloat \<Rightarrow> int \<Rightarrow> npfloat" where
  "sf_example x df = (case x of Num v \<Rightarrow> Num (exp (- v / 2)) | NonFinite \<Rightarrow> NonFinite)"

definition cdf_example :: "real \<Rightarrow> int \<Rightarrow> npfloat" where
  "cdf_example x df = Num (1 - exp (- x / 2))"

text \<open>A generator over a counter: the draw at index 1 is \<open>z\<close>, every other draw is \<open>1/2\<close>.\<close>

definition random_example :: "real \<Rightarrow> nat \<Rightarrow> real \<times> nat" where
  "random_example z i = (if i = 1 then z else 1 / 2, Suc i)"

section \<open>Properties\<close>

subsection \<open>Sample size estimation\<close>

lemma unit_interval_iff: "0 \<le> p * (1 - p) \<longleftrightarrow> 0 \<le> p \<and> p \<le> (1::real)"
  by (auto simp: zero_le_mult_iff)

lemma math_sqrt_radicand:
  "math_sqrt (p * (1 - p)) =
     (if 0 \<le> p \<and> p \<le> 1 then Inr (sqrt (p * (1 - p))) else Inl ValueError)"
  using unit_interval_iff [of p] by (auto simp: math_sqrt_def not_less)

text \<open>
  C1 (as amended). Let \<open>sig\<close> and \<open>pwr\<close> lie strictly between 0 and 1, \<open>mde \<noteq> 0\<close> and
  \<open>tail\<close> be 1 or 2; let \<open>zAlpha\<close> be the quantile at \<open>1 - sig\<close> (one tail) or at
  \<open>1 - sig / 2\<close> (two tails) and \<open>zBeta\<close> the quantile at \<open>pwr\<close>. For \<open>'binomial'\<close> the
  function returns \<open>((zAlpha * sqrt (p1 * (1 - p1)) + zBeta * sqrt (p2 * (1 - p2))) / mde)\<^sup>2\<close>
  with \<open>p2 = p1 + mde\<close> when \<open>p1\<close> and \<open>p2\<close> both lie in \<open>[0, 1]\<close>, and raises
  \<^verbatim>\<open>ValueError\<close> otherwise. For \<open>'continuous'\<close> with \<open>sigma1\<close> supplied it returns
  \<open>((zAlpha + zBeta) / (mde / sigma1))\<^sup>2\<close> when \<open>sigma1 \<noteq> 0\<close>, and raises
  \<^verbatim>\<open>ZeroDivisionError\<close> when \<open>sigma1 = 0\<close>.
\<close>

theorem get_sample_estimate_formula:
  assumes "0 < sig" "sig < 1" "0 < pwr" "pwr < 1" "mde \<noteq> 0" "tail = 1 \<or> tail = 2"
    and "ppf (if tail = 1 then 1 - sig else 1 - sig / 2) = Num zAlpha"
    and "ppf pwr = Num zBeta"
  shows "get_sample_estimate ppf sig pwr mde p1 sigma1 ''binomial'' tail =
           (if 0 \<le> p1 \<and> p1 \<le> 1 \<and> 0 \<le> p1 + mde \<and> p1 + mde \<le> 1
            then Inr (Num (((zAlpha * sqrt (p1 * (1 - p1))
                             + zBeta * sqrt ((p1 + mde) * (1 - (p1 + mde)))) / mde) ^ 2))
            else Inl ValueError)
       \<and> get_sample_estimate ppf sig pwr mde p1 (Some s) ''continuous'' tail =
           (if s = 0 then Inl ZeroDivisionError
            else Inr (Num (((zAlpha + zBeta) / (mde / s)) ^ 2)))"
proof -
  have za: "z_alpha ppf sig tail = Inr (Num zAlpha)"
    using assms(6,7) by (auto simp: z_alpha_def)
  have bin: "get_sample_estimate ppf sig pwr mde p1 sigma1 ''binomial'' tail =
           (if 0 \<le> p1 \<and> p1 \<le> 1 \<and> 0 \<le> p1 + mde \<and> p1 + mde \<le> 1
            then Inr (Num (((zAlpha * sqrt (p1 * (1 - p1))
                             + zBeta * sqrt ((p1 + mde) * (1 - (p1 + mde)))) / mde) ^ 2))
            else Inl ValueError)"
    using assms(5,8) by (simp add: get_sample_estimate_def za math_sqrt_radicand Let_def)
  have con: "get_sample_estimate ppf sig pwr mde p1 (Some s) ''continuous'' tail =
           (if s = 0 then Inl ZeroDivisionError
            else Inr (Num (((zAlpha + zBeta) / (mde / s)) ^ 2)))"
    using assms(5,8) by (simp add: get_sample_estimate_def za py_truediv_def Let_def)
  from bin con show ?thesis by simp
qed

text \<open>The theorem at the notebook's arguments \<open>sig = 0.01\<close>, \<open>power = 0.8\<close>,
  \<open>mde = 0.01\<close>, \<open>p1 = 0.04\<close>, one tail, and in the continuous branch at \<open>sigma1 = 2\<close>.\<close>

theorem get_sample_estimate_formula_witness:
  "(0::real) < 1 / 100 \<and> (1 / 100 :: real) < 1 \<and> (0::real) < 4 / 5 \<and> (4 / 5 :: real) < 1
   \<and> (1 / 100 :: real) \<noteq> 0
   \<and> ppf_example (1 - 1 / 100) = Num (49 / 50) \<and> ppf_example (4 / 5) = Num (3 / 5)
   \<and> get_sample_estimate ppf_example (1 / 100) (4 / 5) (1 / 100) (1 / 25) None ''binomial'' 1 =
       Inr (Num (((49 / 50 * sqrt (1 / 25 * (1 - 1 / 25))
                   + 3 / 5 * sqrt ((1 / 25 + 1 / 100) * (1 - (1 / 25 + 1 / 100)))) / (1 / 100)) ^ 2))
   \<and> get_sample_estimate ppf_example (1 / 100) (4 / 5) (1 / 100) (1 / 25) (Some 2) ''continuous'' 1 =
       Inr (Num (((49 / 50 + 3 / 5) / ((1 / 100) / 2)) ^ 2))"
proof -
  have qa: "ppf_example (if (1::int) = 1 then 1 - 1 / 100 else 1 - (1 / 100) / 2) = Num (49 / 50)"
    by (simp add: ppf_example_def)
  have qb: "ppf_example (4 / 5) = Num (3 / 5)"
    by (simp add: ppf_example_def)
  show ?thesis
    using get_sample_estimate_formula [where sig = "1 / 100" and pwr = "4 / 5"
        and mde = "1 / 100" and tail = 1 and ppf = ppf_example and zAlpha = "49 / 50"
        and zBeta = "3 / 5" and ?p1.0 = "1 / 25" and ?sigma1.0 = None and s = 2, OF _ _ _ _ _ _ qa qb]
      qa qb
    by simp
qed

text \<open>C1 as stated fails: with the baseline rate \<open>p1 = 0.99\<close> and \<open>mde = 0.02\<close> the second
  radicand is negative and \<^verbatim>\<open>math.sqrt\<close> raises; with \<open>sigma1 = 0\<close> the continuous branch
  divides by zero.\<close>

theorem get_sample_estimate_raises_counterexample:
  "get_sample_estimate ppf_example (1 / 100) (4 / 5) (1 / 50) (99 / 100) None ''binomial'' 1
     = Inl ValueError
   \<and> get_sample_estimate ppf_example (1 / 100) (4 / 5) (1 / 50) (99 / 100) (Some 0) ''continuous'' 1
     = Inl ZeroDivisionError"
  by (simp add: get_sample_estimate_def z_alpha_def math_sqrt_def py_truediv_def Let_def)

text \<open>
  C3 (as amended). \<open>get_sample_estimate\<close> fails with an InvalidArgument error exactly when
  \<open>tail\<close> is neither 1 nor 2, or \<open>var_type\<close> is neither \<open>'binomial'\<close> nor
  \<open>'continuous'\<close>, or \<open>var_type\<close> is \<open>'continuous'\<close> and \<open>sigma1\<close> is absent, or
  \<open>var_type\<close> is \<open>'binomial'\<close> and \<open>p1\<close> or \<open>p1 + mde\<close> lies outside \<open>[0, 1]\<close>; the
  outcome is then the error and no result. The first three conditions are exactly those
  under which the error is an \<^verbatim>\<open>Exception\<close> of the source's own or a \<^verbatim>\<open>TypeError\<close>; the
  fourth is \<^verbatim>\<open>ValueError\<close>.
\<close>

theorem get_sample_estimate_invalid_argument:
  "((\<exists>e. get_sample_estimate ppf sig pwr mde p1 sigma1 var_type tail = Inl e
          \<and> invalid_argument e)
     \<longleftrightarrow> (tail \<noteq> 1 \<and> tail \<noteq> 2)
        \<or> (var_type \<noteq> ''binomial'' \<and> var_type \<noteq> ''continuous'')
        \<or> (var_type = ''continuous'' \<and> sigma1 = None)
        \<or> (var_type = ''binomial''
             \<and> \<not> (0 \<le> p1 \<and> p1 \<le> 1 \<and> 0 \<le> p1 + mde \<and> p1 + mde \<le> 1)))
   \<and> ((\<exists>e. get_sample_estimate ppf sig pwr mde p1 sigma1 var_type tail = Inl e
            \<and> e \<noteq> ValueError \<and> e \<noteq> ZeroDivisionError)
       \<longleftrightarrow> (tail \<noteq> 1 \<and> tail \<noteq> 2)
          \<or> (var_type \<noteq> ''binomial'' \<and> var_type \<noteq> ''continuous'')
          \<or> (var_type = ''continuous'' \<and> sigma1 = None))"
proof -
  have all_kinds: "(\<exists>e. get_sample_estimate ppf sig pwr mde p1 sigma1 var_type tail = Inl e
          \<and> invalid_argument e)
     \<longleftrightarrow> (tail \<noteq> 1 \<and> tail \<noteq> 2)
        \<or> (var_type \<noteq> ''binomial'' \<and> var_type \<noteq> ''continuous'')
        \<or> (var_type = ''continuous'' \<and> sigma1 = None)
        \<or> (var_type = ''binomial''
             \<and> \<not> (0 \<le> p1 \<and> p1 \<le> 1 \<and> 0 \<le> p1 + mde \<and> p1 + mde \<le> 1))"
    by (auto simp: get_sample_estimate_def z_alpha_def math_sqrt_radicand py_truediv_def
        invalid_argument_def Let_def split: sum.splits option.splits if_splits)
  have raised: "(\<exists>e. get_sample_estimate ppf sig pwr mde p1 sigma1 var_type tail = Inl e
            \<and> e \<noteq> ValueError \<and> e \<noteq> ZeroDivisionError)
       \<longleftrightarrow> (tail \<noteq> 1 \<and> tail \<noteq> 2)
          \<or> (var_type \<noteq> ''binomial'' \<and> var_type \<noteq> ''continuous'')
          \<or> (var_type = ''continuous'' \<and> sigma1 = None)"
    by (auto simp: get_sample_estimate_def z_alpha_def math_sqrt_def py_truediv_def
        Let_def split: sum.splits option.splits if_splits)
  from all_kinds raised show ?thesis by blast
qed

text \<open>C3 as stated fails: with \<open>tail = 2\<close>, \<open>var_type = 'binomial'\<close> and \<open>p1 = 2\<close> none of
  the three conditions holds and the call raises \<^verbatim>\<open>ValueError\<close>.\<close>

theorem get_sample_estimate_value_error_counterexample:
  "get_sample_estimate ppf_example (1 / 20) (4 / 5) (1 / 2) 2 None ''binomial'' 2 = Inl ValueError
   \<and> invalid_argument ValueError"
  by (simp add: get_sample_estimate_def z_alpha_def math_sqrt_def invalid_argument_def Let_def)

text \<open>The first three cases at concrete arguments: \<open>tail = 3\<close>, \<open>var_type = 'unknown'\<close>, and
  \<open>'continuous'\<close> without \<open>sigma1\<close>.\<close>

lemma get_sample_estimate_invalid_examples:
  "get_sample_estimate ppf sig pwr mde p1 sigma1 var_type 3
     = Inl (Exception ''tail can only be 1 or 2'')"
  "get_sample_estimate ppf sig pwr mde p1 sigma1 ''unknown'' 1
     = Inl (Exception ''var_type can only be binomial or continuous'')"
  "get_sample_estimate ppf sig pwr mde p1 None ''continuous'' 2 = Inl TypeError"
  by (simp_all add: get_sample_estimate_def z_alpha_def py_truediv_def Let_def)

text \<open>
  C9. The quantile computed for \<open>tail = 2\<close> at significance \<open>sig\<close> is the quantile computed
  for \<open>tail = 1\<close> at significance \<open>sig / 2\<close>, and with every other argument fixed the two
  calls of \<open>get_sample_estimate\<close> give the same outcome.
\<close>

theorem two_tail_is_one_tail_at_half_sig:
  "z_alpha ppf sig 2 = z_alpha ppf (sig / 2) 1 \<and>
   get_sample_estimate ppf sig pwr mde p1 sigma1 var_type 2 =
   get_sample_estimate ppf (sig / 2) pwr mde p1 sigma1 var_type 1"
  by (simp add: get_sample_estimate_def z_alpha_def)

text \<open>
  C10. In the continuous branch with \<open>sigma1\<close> supplied the outcome does not depend on
  \<open>p1\<close>: any two values of \<open>p1\<close> give the same estimate, the other arguments being fixed.
\<close>

theorem continuous_estimate_ignores_p1:
  "get_sample_estimate ppf sig pwr mde p1 (Some sigma1) ''continuous'' tail =
   get_sample_estimate ppf sig pwr mde p1' (Some sigma1) ''continuous'' tail"
  by (simp add: get_sample_estimate_def Let_def split: sum.splits)

subsection \<open>Drawing samples\<close>

lemma uniform_unit: "uniform random 0 1 g = random g"
  by (simp add: uniform_def split: prod.splits)

lemma draw_sample_eq:
  "draw_sample random p g = (if fst (random g) \<le> p then 1 else 0, snd (random g))"
  by (simp add: draw_sample_def uniform_unit split: prod.splits)

lemma draw_loop_eq:
  "fst (draw_loop random p k out g) =
     out @ map (\<lambda>u. if u \<le> p then 1 else 0) (draws random k g)"
proof (induction k arbitrary: out g)
  case 0
  show ?case by simp
next
  case (Suc k)
  show ?case
    by (simp add: draw_sample_eq Suc.IH split: prod.splits)
qed

lemma length_draws: "length (draws random k g) = k"
  by (induction k arbitrary: g) (simp_all split: prod.splits)

lemma draws_in_range:
  assumes "\<forall>g. lo \<le> fst (random g) \<and> fst (random g) < hi"
  shows "\<forall>u\<in>set (draws random k g). lo \<le> u \<and> u < hi"
proof (induction k arbitrary: g)
  case 0
  show ?case by simp
next
  case (Suc k)
  obtain r g' where rg: "random g = (r, g')" by (cases "random g")
  from assms have "lo \<le> fst (random g) \<and> fst (random g) < hi" by blast
  with rg have "lo \<le> r \<and> r < hi" by simp
  with Suc.IH [of g'] rg show ?case by simp
qed

lemma map_const_replicate:
  "\<forall>u\<in>set xs. f u = c \<Longrightarrow> map f xs = replicate (length xs) c"
  by (induction xs) simp_all

text \<open>
  C4. For \<open>p\<close> in \<open>[0, 1]\<close> and \<open>n \<ge> 0\<close>, with a generator whose values lie in \<open>[0, 1)\<close>:
  \<open>draw_samples p n\<close> returns exactly \<open>n\<close> values; the \<open>i\<close>-th value is 1 if the \<open>i\<close>-th
  draw of the generator is \<open>\<le> p\<close> and 0 otherwise; every draw lies in \<open>[0, 1)\<close>; and
  \<open>n = 0\<close> gives the empty sequence and leaves the generator as it was.
\<close>

theorem draw_samples_bernoulli:
  assumes "\<forall>g. 0 \<le> fst (random g) \<and> fst (random g) < 1"
    and "0 \<le> p" "p \<le> 1" "0 \<le> n"
  shows "fst (draw_samples random p n g) =
           map (\<lambda>u. if u \<le> p then 1 else 0) (draws random (nat n) g)
       \<and> int (length (fst (draw_samples random p n g))) = n
       \<and> (\<forall>u\<in>set (draws random (nat n) g). 0 \<le> u \<and> u < 1)
       \<and> draw_samples random p 0 g = ([], g)"
proof -
  have vals: "fst (draw_samples random p n g) =
           map (\<lambda>u. if u \<le> p then 1 else 0) (draws random (nat n) g)"
    by (simp add: draw_samples_def draw_loop_eq)
  have len: "int (length (fst (draw_samples random p n g))) = n"
    using assms(4) by (simp add: vals length_draws)
  have rng: "\<forall>u\<in>set (draws random (nat n) g). 0 \<le> u \<and> u < 1"
    using assms(1) by (rule draws_in_range)
  have emp: "draw_samples random p 0 g = ([], g)"
    by (simp add: draw_samples_def)
  from vals len rng emp show ?thesis by blast
qed

text \<open>The theorem at \<open>p = 1/2\<close>, \<open>n = 3\<close> and the draws \<open>1/2, 3/4, 1/2\<close>: the draw equal to
  \<open>p\<close> counts as a success.\<close>

theorem draw_samples_bernoulli_witness:
  "(0::real) \<le> 1 / 2 \<and> (1 / 2 :: real) \<le> 1 \<and> (0::int) \<le> 3
   \<and> draws (random_example (3 / 4)) (nat 3) 0 = [1 / 2, 3 / 4, 1 / 2]
   \<and> fst (draw_samples (random_example (3 / 4)) (1 / 2) 3 0) = [1, 0, 1]
   \<and> int (length (fst (draw_samples (random_example (3 / 4)) (1 / 2) 3 0))) = 3
   \<and> draw_samples (random_example (3 / 4)) (1 / 2) 0 0 = ([], 0)"
proof -
  have src: "\<forall>g. 0 \<le> fst (random_example (3 / 4) g) \<and> fst (random_example (3 / 4) g) < 1"
    by (simp add: random_example_def)
  have ds: "draws (random_example (3 / 4)) (nat 3) 0 = [1 / 2, 3 / 4, 1 / 2]"
    by (simp add: random_example_def eval_nat_numeral)
  show ?thesis
    using draw_samples_bernoulli [OF src, where p = "1 / 2" and n = 3 and g = 0] ds
    by simp
qed

text \<open>
  C5. The claim is that \<open>draw_samples 0 n\<close> is \<open>n\<close> zeros and \<open>draw_samples 1 n\<close> is \<open>n\<close>
  ones whatever the generator produces. The second half holds for every generator with
  values in \<open>[0, 1)\<close>. The first half holds when no draw is exactly 0; a draw of \<open>0.0\<close>,
  which \<^verbatim>\<open>random.random()\<close> can return, passes the test \<^verbatim>\<open><= p\<close> at \<open>p = 0\<close> and the
  code emits a 1: with the draws \<open>1/2, 0, 1/2\<close> it returns \<open>[0, 1, 0]\<close>.
\<close>

theorem draw_samples_p0_emits_one:
  "fst (draw_samples (random_example 0) 0 3 0) = [0, 1, 0]"
  by (simp add: draw_samples_def draw_sample_def uniform_def random_example_def eval_nat_numeral)

lemma draw_samples_p1_all_ones:
  assumes "\<forall>g. 0 \<le> fst (random g) \<and> fst (random g) < 1"
  shows "fst (draw_samples random 1 n g) = replicate (nat n) 1"
proof -
  have "\<forall>u\<in>set (draws random (nat n) g). 0 \<le> u \<and> u < 1"
    using assms by (rule draws_in_range)
  then have "\<forall>u\<in>set (draws random (nat n) g). (if u \<le> 1 then 1 else (0::int)) = 1"
    by auto
  then have "map (\<lambda>u. if u \<le> 1 then 1 else (0::int)) (draws random (nat n) g)
             = replicate (length (draws random (nat n) g)) 1"
    by (rule map_const_replicate)
  then show ?thesis
    by (simp add: draw_samples_def draw_loop_eq length_draws)
qed

lemma draw_samples_p0_all_zeros:
  assumes "\<forall>g. 0 < fst (random g)"
  shows "fst (draw_samples random 0 n g) = replicate (nat n) 0"
proof -
  have pos: "\<forall>u\<in>set (draws random k g). 0 < u" for k g
  proof (induction k arbitrary: g)
    case 0
    show ?case by simp
  next
    case (Suc k)
    obtain r g' where rg: "random g = (r, g')" by (cases "random g")
    from assms have "0 < fst (random g)" by blast
    with rg have "0 < r" by simp
    with Suc.IH [of g'] rg show ?case by simp
  qed
  have "\<forall>u\<in>set (draws random (nat n) g). (if u \<le> 0 then 1 else (0::int)) = 0"
    using pos [of "nat n" g] by auto
  then have "map (\<lambda>u. if u \<le> 0 then 1 else (0::int)) (draws random (nat n) g)
             = replicate (length (draws random (nat n) g)) 0"
    by (rule map_const_replicate)
  then show ?thesis
    by (simp add: draw_samples_def draw_loop_eq length_draws)
qed

subsection \<open>Significance test and power\<close>

lemma count_of_count_list: "count_of i grp = int (count_list grp i)"
  by (induction grp) (simp_all add: count_of_def)

lemma spec_statistic_count_of:
  "spec_statistic observed expected =
     (\<Sum>i\<leftarrow>[0, 1]. real_of_int ((count_of i observed - count_of i expected) ^ 2)
                  / real_of_int (count_of i expected))"
  by (simp add: spec_statistic_def count_of_count_list)

lemma noncentrality_eq:
  "noncentrality test_group control_group =
     (if count_of 0 control_group = 0 \<or> count_of 1 control_group = 0 then Inl ZeroDivisionError
      else Inr (5000 * spec_statistic test_group control_group))"
  by (simp add: noncentrality_def spec_statistic_count_of Let_def distrib_left mult.commute)

lemma chisquare_statistic:
  "fst (significance_test chi2_sf test_group control_group) =
     (if count_of 0 control_group = 0 \<or> count_of 1 control_group = 0 then NonFinite
      else Num (spec_statistic test_group control_group))"
  by (simp add: significance_test_def chisquare_def f_obs_def f_exp_def spec_statistic_count_of
      Let_def)

lemma chisquare_pvalue:
  "snd (significance_test chi2_sf test_group control_group) =
     chi2_sf (fst (significance_test chi2_sf test_group control_group)) 1"
  by (simp add: significance_test_def chisquare_def f_obs_def f_exp_def Let_def)

text \<open>What the cell computes: the distribution function at \<open>5000 * \<Sum>\<^sub>i (O\<^sub>i - E\<^sub>i)\<^sup>2 / E\<^sub>i\<close>,
  with the literal 5000 of the source. On an observed group of 5000 elements, the size the
  notebook draws, that factor is the group's length.\<close>

lemma power_estimate_literal:
  assumes "count_list control_group 0 \<noteq> 0" "count_list control_group 1 \<noteq> 0"
  shows "power_estimate chi2_cdf test_group control_group =
           Inr (chi2_cdf (5000 * spec_statistic test_group control_group) 1)"
  using assms by (simp add: power_estimate_def noncentrality_eq count_of_count_list)

lemma power_estimate_at_5000:
  assumes "count_list control_group 0 \<noteq> 0" "count_list control_group 1 \<noteq> 0"
    and "length test_group = 5000"
  shows "power_estimate chi2_cdf test_group control_group =
           Inr (chi2_cdf (real (length test_group) * spec_statistic test_group control_group) 1)"
  using assms by (simp add: power_estimate_literal)


text \<open>
  C6. For two outcome sequences of any lengths, the expected one containing at least one 0
  and at least one 1, the significance test returns the statistic
  \<open>\<Sum>\<^sub>i (fObs\<^sub>i - fExp\<^sub>i)\<^sup>2 / fExp\<^sub>i\<close> over the two categories \<open>i = 0, 1\<close>, where \<open>fObs\<^sub>i\<close> and
  \<open>fExp\<^sub>i\<close> are the numbers of occurrences of \<open>i\<close> in the observed and in the expected
  group, paired with the chi-square survival function with 1 degree of freedom at that
  statistic.
\<close>

theorem significance_test_formula:
  assumes "count_list control_group 0 \<noteq> 0" "count_list control_group 1 \<noteq> 0"
  shows "f_obs test_group = [int (count_list test_group 0), int (count_list test_group 1)]
       \<and> f_exp control_group = [int (count_list control_group 0), int (count_list control_group 1)]
       \<and> significance_test chi2_sf test_group control_group =
           (Num ((real (count_list test_group 0) - real (count_list control_group 0)) ^ 2
                   / real (count_list control_group 0)
                 + (real (count_list test_group 1) - real (count_list control_group 1)) ^ 2
                   / real (count_list control_group 1)),
            chi2_sf (Num ((real (count_list test_group 0) - real (count_list control_group 0)) ^ 2
                            / real (count_list control_group 0)
                          + (real (count_list test_group 1) - real (count_list control_group 1)) ^ 2
                            / real (count_list control_group 1))) 1)"
proof -
  have occurrences: "count_of i grp = int (count_list grp i)" for i grp
    by (induction grp) (simp_all add: count_of_def)
  have counts: "f_obs test_group = [int (count_list test_group 0), int (count_list test_group 1)]"
    "f_exp control_group = [int (count_list control_group 0), int (count_list control_group 1)]"
    by (simp_all add: f_obs_def f_exp_def occurrences)
  have call: "significance_test chi2_sf test_group control_group =
      chisquare chi2_sf [int (count_list test_group 0), int (count_list test_group 1)]
        [int (count_list control_group 0), int (count_list control_group 1)]"
    by (simp add: significance_test_def counts)
  have result: "chisquare chi2_sf [int (count_list test_group 0), int (count_list test_group 1)]
        [int (count_list control_group 0), int (count_list control_group 1)] =
           (Num ((real (count_list test_group 0) - real (count_list control_group 0)) ^ 2
                   / real (count_list control_group 0)
                 + (real (count_list test_group 1) - real (count_list control_group 1)) ^ 2
                   / real (count_list control_group 1)),
            chi2_sf (Num ((real (count_list test_group 0) - real (count_list control_group 0)) ^ 2
                            / real (count_list control_group 0)
                          + (real (count_list test_group 1) - real (count_list control_group 1)) ^ 2
                            / real (count_list control_group 1))) 1)"
    using assms by (simp add: chisquare_def Let_def)
  from counts call result show ?thesis by simp
qed

text \<open>The theorem at groups of unequal length: observed \<open>[0, 1, 1, 1, 7]\<close> (one 0, three 1s,
  and a value that is neither), expected \<open>[0, 1, 0]\<close> (two 0s, one 1); the statistic is
  \<open>(1 - 2)\<^sup>2 / 2 + (3 - 1)\<^sup>2 / 1 = 9/2\<close>.\<close>

theorem significance_test_formula_witness:
  "count_list [0, 1, 0 :: int] 0 \<noteq> 0 \<and> count_list [0, 1, 0 :: int] 1 \<noteq> 0
   \<and> f_obs [0, 1, 1, 1, 7] = [1, 3] \<and> f_exp [0, 1, 0] = [2, 1]
   \<and> significance_test sf_example [0, 1, 1, 1, 7] [0, 1, 0] = (Num (9 / 2), sf_example (Num (9 / 2)) 1)"
proof -
  have c0: "count_list [0, 1, 0 :: int] 0 \<noteq> 0" by simp
  have c1: "count_list [0, 1, 0 :: int] 1 \<noteq> 0" by simp
  have fo: "f_obs [0, 1, 1, 1, 7] = [1, 3]" by (simp add: f_obs_def count_of_def)
  have fe: "f_exp [0, 1, 0] = [2, 1]" by (simp add: f_exp_def count_of_def)
  have st: "significance_test sf_example [0, 1, 1, 1, 7] [0, 1, 0]
              = (Num (9 / 2), sf_example (Num (9 / 2)) 1)"
    using significance_test_formula [OF c0 c1, where test_group = "[0, 1, 1, 1, 7]"
        and chi2_sf = sf_example]
    by simp
  from c0 c1 fo fe st show ?thesis by simp
qed

text \<open>
  C7 (as amended). Whenever an expected-category count is zero, the power estimate fails
  with \<^verbatim>\<open>ZeroDivisionError\<close> and produces no result. The significance test does not
  fail there: the library divides elementwise on numpy arrays and the test returns a
  statistic that is not finite.
\<close>

theorem zero_expected_count:
  assumes "count_of 0 control_group = 0 \<or> count_of 1 control_group = 0"
  shows "power_estimate chi2_cdf test_group control_group = Inl ZeroDivisionError
       \<and> fst (significance_test chi2_sf test_group control_group) = NonFinite"
  using assms chisquare_statistic [of chi2_sf test_group control_group]
  by (auto simp: power_estimate_def noncentrality_eq)

text \<open>The theorem at the expected group \<open>[0, 0]\<close>, which has no 1.\<close>

theorem zero_expected_count_witness:
  "count_of 1 [0, 0] = 0
   \<and> power_estimate cdf_example [0, 1] [0, 0] = Inl ZeroDivisionError
   \<and> fst (significance_test sf_example [0, 1] [0, 0]) = NonFinite"
proof -
  have c1: "count_of 1 [0, 0] = 0" by (simp add: count_of_def)
  then have c: "count_of 0 [0, 0] = 0 \<or> count_of 1 [0, 0] = 0" by simp
  show ?thesis
    using zero_expected_count [OF c, where test_group = "[0, 1]" and chi2_cdf = cdf_example
        and chi2_sf = sf_example] c1
    by simp
qed

text \<open>C7 as stated fails for the significance test: for the observed group \<open>[0, 1]\<close> and
  the expected group \<open>[0, 0]\<close> the counts are \<open>[1, 1]\<close> and \<open>[2, 0]\<close>, the terms are
  \<open>1/2\<close> and \<open>1/0\<close>, and the test returns a pair whose statistic is not finite.\<close>

theorem significance_test_zero_expected_counterexample:
  "f_obs [0, 1] = [1, 1] \<and> f_exp [0, 0] = [2, 0]
   \<and> significance_test sf_example [0, 1] [0, 0] = (NonFinite, sf_example NonFinite 1)"
  by (simp add: significance_test_def chisquare_def f_obs_def f_exp_def count_of_def)

text \<open>
  C8. For an outcome sequence with a nonzero count of 0s and a nonzero count of 1s, the
  test of the sequence against itself has statistic exactly 0 and p-value exactly 1. The
  p-value is the library's survival function at 0, which is 1 for the chi-square
  distribution; that value of the parameter is the third assumption.
\<close>

theorem self_test_statistic_zero:
  assumes "count_of 0 grp \<noteq> 0" "count_of 1 grp \<noteq> 0" "chi2_sf (Num 0) 1 = Num 1"
  shows "significance_test chi2_sf grp grp = (Num 0, Num 1)"
  using assms chisquare_statistic [of chi2_sf grp grp] chisquare_pvalue [of chi2_sf grp grp]
  by (simp add: prod_eq_iff spec_statistic_count_of)

text \<open>The theorem at the sequence \<open>[0, 1, 1, 0, 1]\<close>.\<close>

theorem self_test_statistic_zero_witness:
  "count_of 0 [0, 1, 1, 0, 1] \<noteq> 0 \<and> count_of 1 [0, 1, 1, 0, 1] \<noteq> 0
   \<and> sf_example (Num 0) 1 = Num 1
   \<and> significance_test sf_example [0, 1, 1, 0, 1] [0, 1, 1, 0, 1] = (Num 0, Num 1)"
proof -
  have c0: "count_of 0 [0, 1, 1, 0, 1] \<noteq> 0" by (simp add: count_of_def)
  have c1: "count_of 1 [0, 1, 1, 0, 1] \<noteq> 0" by (simp add: count_of_def)
  have sf: "sf_example (Num 0) 1 = Num 1" by (simp add: sf_example_def)
  show ?thesis
    using self_test_statistic_zero [where chi2_sf = sf_example and grp = "[0, 1, 1, 0, 1]"]
      c0 c1 sf
    by simp
qed

end
